theory Spec2Isabelle
  imports Complex_Main "HOL-Library.Sublist" "HOL-Library.Multiset" "HOL-Library.List_Lexorder"
    "HOL-Library.Char_ord"
begin

section \<open>JavaScript values used by the integration\<close>

text \<open>
  Strings are sequences of code units; the model covers the code units up to U+00FF, one
  \<^typ>\<open>char\<close> each. A string is falsy exactly when it is empty, and an absent
  (\<open>undefined\<close> or \<open>null\<close>) value is falsy as well.
\<close>

definition truthy :: "string option \<Rightarrow> bool" where
  "truthy v = (case v of None \<Rightarrow> False | Some s \<Rightarrow> s \<noteq> [])"

text \<open>\<open>a || b\<close> on an optional string and a string.\<close>

definition or_else :: "string option \<Rightarrow> string \<Rightarrow> string" where
  "or_else v d = (case v of None \<Rightarrow> d | Some s \<Rightarrow> if s \<noteq> [] then s else d)"

text \<open>
  \<open>String.prototype.trim\<close> strips white space and line terminators from both ends. In the
  modelled range these are TAB, LF, VT, FF, CR, SP and NBSP.
\<close>

definition isWhiteSpace :: "char \<Rightarrow> bool" where
  "isWhiteSpace c =
     (c \<in> set [CHR 0x09, CHR 0x0A, CHR 0x0B, CHR 0x0C, CHR 0x0D, CHR 0x20, CHR 0xA0])"

definition trim :: "string \<Rightarrow> string" where
  "trim s = rev (dropWhile isWhiteSpace (rev (dropWhile isWhiteSpace s)))"

text \<open>\<open>String.prototype.startsWith\<close> and \<open>String.prototype.includes\<close>.\<close>

definition startsWith :: "string \<Rightarrow> string \<Rightarrow> bool" where
  "startsWith s p = prefix p s"

fun includes_js :: "string \<Rightarrow> string \<Rightarrow> bool" where
  "includes_js [] t = (t = [])"
| "includes_js (c # s) t = (prefix t (c # s) \<or> includes_js s t)"

text \<open>\<open>String.prototype.split\<close> on a one-character separator.\<close>

fun split_acc :: "char \<Rightarrow> string \<Rightarrow> string \<Rightarrow> string list" where
  "split_acc sep cur [] = [rev cur]"
| "split_acc sep cur (c # s) =
     (if c = sep then rev cur # split_acc sep [] s else split_acc sep (c # cur) s)"

definition split :: "string \<Rightarrow> char \<Rightarrow> string list" where
  "split s sep = split_acc sep [] s"

text \<open>Indexing an array: \<open>undefined\<close> outside its bounds.\<close>

fun at_index :: "'a list \<Rightarrow> nat \<Rightarrow> 'a option" where
  "at_index [] n = None"
| "at_index (x # xs) 0 = Some x"
| "at_index (x # xs) (Suc n) = at_index xs n"

text \<open>\<open>Array.prototype.indexOf\<close>: the first position of the element, \<open>-1\<close> when absent.\<close>

fun indexOf :: "'a list \<Rightarrow> 'a \<Rightarrow> int" where
  "indexOf [] x = -1"
| "indexOf (y # ys) x = (if y = x then 0 else (let i = indexOf ys x in if i < 0 then -1 else i + 1))"

text \<open>A number interpolated into a template string: its decimal digits.\<close>

fun digits_of :: "nat \<Rightarrow> string" where
  "digits_of n =
     (if n < 10 then [char_of (48 + n)] else digits_of (n div 10) @ [char_of (48 + n mod 10)])"

text \<open>
  \<open>Array.prototype.sort\<close> is stable, and for a consistent comparator its result is the one
  stable ordering of the array; insertion from the right computes that ordering. A
  comparator's result is read by its sign only.
\<close>

fun insert_by :: "('a \<Rightarrow> 'a \<Rightarrow> int) \<Rightarrow> 'a \<Rightarrow> 'a list \<Rightarrow> 'a list" where
  "insert_by cmp x [] = [x]"
| "insert_by cmp x (y # ys) = (if cmp x y \<le> 0 then x # y # ys else y # insert_by cmp x ys)"

definition sort_by :: "('a \<Rightarrow> 'a \<Rightarrow> int) \<Rightarrow> 'a list \<Rightarrow> 'a list" where
  "sort_by cmp xs = foldr (insert_by cmp) xs []"

text \<open>The consistency the language asks of a comparator, on the sign of its result.\<close>

definition consistent_comparator :: "('a \<Rightarrow> 'a \<Rightarrow> int) \<Rightarrow> bool" where
  "consistent_comparator cmp =
     ((\<forall>a b. cmp a b \<le> 0 \<or> cmp b a \<le> 0) \<and>
      (\<forall>a b c. cmp a b \<le> 0 \<longrightarrow> cmp b c \<le> 0 \<longrightarrow> cmp a c \<le> 0))"

section \<open>HTTP requests and responses\<close>

text \<open>
  A call of \<open>fetch\<close> is an effect: each operation returns the requests it issued, in
  order, next to its result, and takes the outcome of its one request as an argument.
  The request body is kept as the object handed to \<open>JSON.stringify\<close>.
\<close>

datatype Role = System | User | Assistant

record ChatMessage =
  role :: Role
  content :: string

record ChatBody =
  model :: string
  messages :: "ChatMessage list"
  max_tokens :: nat

datatype HttpMethod = GET | POST

record Request =
  url :: string
  http_method :: HttpMethod
  headers :: "(string \<times> string) list"
  body :: "ChatBody option"

text \<open>
  The body of a response either cannot be read, is not JSON, or parses to a payload of
  the interface the code casts it to.
\<close>

datatype 'p Body = Unreadable | NotJson | Json 'p

record 'p Response =
  status :: nat
  payload :: "'p Body"

definition ok :: "('p, 'z) Response_scheme \<Rightarrow> bool" where
  "ok r = (200 \<le> status r \<and> status r \<le> 299)"

datatype 'p Fetched = Rejected | Resolved "'p Response"

text \<open>
  Thrown values: an \<open>Error\<close> the code constructs with its message, the rejection of
  \<open>fetch\<close>, and the rejection of reading or parsing a body.
\<close>

datatype JsError = Error string | FetchRejected | BodyRejected

definition get_request :: "string \<Rightarrow> string \<Rightarrow> Request" where
  "get_request u key =
     \<lparr>url = u, http_method = GET, headers = [(''Authorization'', ''Bearer '' @ key)],
      body = None\<rparr>"

section \<open>The device (device.ts)\<close>

record ResponseMessage =
  msg_content :: "string option"

record Choice =
  message :: "ResponseMessage option"

record ResponseError =
  err_message :: "string option"

record OpenRouterResponse =
  choices :: "Choice list option"
  error :: "ResponseError option"

record 'n CreditsData =
  total_credits :: 'n
  total_usage :: 'n

record 'n CreditsResponse =
  credits_data :: "'n CreditsData option"

text \<open>
  The device holds its two private fields and the two capability values the host keeps
  for it. Numbers are left polymorphic: the code only subtracts them.
\<close>

record 'n Device =
  apiKey :: string
  defaultModel :: string
  openrouter_credits :: "'n option"
  openrouter_status :: "bool option"

text \<open>
  \<open>setCapabilityValue(...).catch(this.error)\<close>: the host either stores the value or
  rejects, and a rejection is logged and leaves the stored value as it was.
\<close>

definition set_credits :: "bool \<Rightarrow> 'n \<Rightarrow> 'n Device \<Rightarrow> 'n Device" where
  "set_credits stored v d = (if stored then d\<lparr>openrouter_credits := Some v\<rparr> else d)"

definition set_status :: "bool \<Rightarrow> bool \<Rightarrow> 'n Device \<Rightarrow> 'n Device" where
  "set_status stored v d = (if stored then d\<lparr>openrouter_status := Some v\<rparr> else d)"

definition checkCredits ::
  "bool \<Rightarrow> ('n::minus) CreditsResponse Fetched \<Rightarrow> 'n Device \<Rightarrow> 'n Device \<times> Request list" where
  "checkCredits stored fetched d =
     (if apiKey d = [] then (d, [])
      else
        let req = get_request ''https://openrouter.ai/api/v1/credits'' (apiKey d) in
        (case fetched of
           Rejected \<Rightarrow> (d, [req])
         | Resolved response \<Rightarrow>
             if \<not> ok response then (d, [req])
             else
               (case payload response of
                  Json data \<Rightarrow>
                    (case credits_data data of
                       Some cd \<Rightarrow>
                         (let remaining = total_credits cd - total_usage cd
                          in (set_credits stored remaining d, [req]))
                     | None \<Rightarrow> (d, [req]))
                | _ \<Rightarrow> (d, [req]))))"

definition checkApiStatus ::
  "bool \<Rightarrow> 'p Fetched \<Rightarrow> 'n Device \<Rightarrow> bool \<times> 'n Device \<times> Request list" where
  "checkApiStatus stored fetched d =
     (let req = get_request ''https://openrouter.ai/api/v1/models'' (apiKey d) in
      (case fetched of
         Rejected \<Rightarrow> (False, set_status stored False d, [req])
       | Resolved response \<Rightarrow>
           (let isOnline = ok response in (isOnline, set_status stored isOnline d, [req]))))"

text \<open>\<open>data.choices?.[0]?.message?.content\<close>\<close>

definition first_content :: "OpenRouterResponse \<Rightarrow> string option" where
  "first_content data =
     (case choices data of
        None \<Rightarrow> None
      | Some cs \<Rightarrow>
          (case at_index cs 0 of
             None \<Rightarrow> None
           | Some c \<Rightarrow> (case message c of None \<Rightarrow> None | Some m \<Rightarrow> msg_content m)))"

definition build_messages :: "string \<Rightarrow> string option \<Rightarrow> ChatMessage list" where
  "build_messages prompt systemPrompt =
     (case systemPrompt of
        None \<Rightarrow> []
      | Some sp \<Rightarrow> if sp \<noteq> [] then [\<lparr>role = System, content = sp\<rparr>] else [])
     @ [\<lparr>role = User, content = prompt\<rparr>]"

definition chat_request :: "string \<Rightarrow> string \<Rightarrow> ChatMessage list \<Rightarrow> Request" where
  "chat_request key selectedModel msgs =
     \<lparr>url = ''https://openrouter.ai/api/v1/chat/completions'', http_method = POST,
      headers =
        [(''Authorization'', ''Bearer '' @ key),
         (''Content-Type'', ''application/json''),
         (''HTTP-Referer'', ''https://homey.app''),
         (''X-Title'', ''Homey OpenRouter'')],
      body = Some \<lparr>model = selectedModel, messages = msgs, max_tokens = 500\<rparr>\<rparr>"

text \<open>
  What the body of the \<open>try\<close> block does with the outcome of the request; the
  \<open>catch\<close> logs the error and throws it again, so the error reaches the caller as it is.
\<close>

definition read_completion :: "OpenRouterResponse Fetched \<Rightarrow> JsError + string" where
  "read_completion fetched =
     (case fetched of
        Rejected \<Rightarrow> Inl FetchRejected
      | Resolved response \<Rightarrow>
          if \<not> ok response then
            (case payload response of
               Unreadable \<Rightarrow> Inl BodyRejected
             | _ \<Rightarrow> Inl (Error (''API request failed: '' @ digits_of (status response))))
          else
            (case payload response of
               Json data \<Rightarrow>
                 (case error data of
                    Some e \<Rightarrow> Inl (Error (or_else (err_message e) ''Unknown API error''))
                  | None \<Rightarrow>
                      (case first_content data of
                         None \<Rightarrow> Inl (Error ''No response content received'')
                       | Some c \<Rightarrow>
                           if c = [] then Inl (Error ''No response content received'')
                           else Inr (trim c)))
             | _ \<Rightarrow> Inl BodyRejected))"

definition generateText ::
  "'n Device \<Rightarrow> string \<Rightarrow> string option \<Rightarrow> string option \<Rightarrow> OpenRouterResponse Fetched \<Rightarrow>
     (JsError + string) \<times> Request list" where
  "generateText d prompt mdl systemPrompt fetched =
     (if apiKey d = [] then (Inl (Error ''API key not configured''), [])
      else
        let selectedModel = or_else mdl (defaultModel d);
            msgs = build_messages prompt systemPrompt
        in (read_completion fetched, [chat_request (apiKey d) selectedModel msgs]))"

section \<open>The driver (driver.ts)\<close>

text \<open>
  The fields \<open>id\<close> and \<open>name\<close> of a model carry a prefix here, \<open>id\<close> being the identity
  function of the logic.
\<close>

record OpenRouterModel =
  model_id :: string
  model_name :: string

record ModelsResponse =
  models_data :: "OpenRouterModel list option"

definition FEATURED_MODELS :: "string list" where
  "FEATURED_MODELS =
     [''google/gemini-3-flash-preview'',
      ''google/gemini-2.0-flash-exp:free'',
      ''openai/gpt-4.1-mini'',
      ''openai/gpt-4.1'',
      ''anthropic/claude-opus-4.5'',
      ''deepseek/deepseek-v3.2'',
      ''meta-llama/llama-4-maverick'',
      ''mistralai/mistral-large-2512'']"

record Driver =
  modelsCache :: "OpenRouterModel list"
  modelsCacheTime :: int

definition CACHE_TTL :: int where
  "CACHE_TTL = 5 * 60 * 1000"

text \<open>\<open>id.split('/')[1] || id\<close>\<close>

definition default_name :: "string \<Rightarrow> string" where
  "default_name i = or_else (at_index (split i CHR ''/'') 1) i"

definition getDefaultModels :: "OpenRouterModel list" where
  "getDefaultModels = map (\<lambda>i. \<lparr>model_id = i, model_name = default_name i\<rparr>) FEATURED_MODELS"

text \<open>
  What one call of \<open>fetchModels\<close> reads from outside: the clock at the validity
  check, the device's \<open>apiKey\<close> setting, the outcome of the request and the clock when the
  cache is stored.
\<close>

record FetchWorld =
  now_check :: int
  setting_apiKey :: "string option"
  fetched_models :: "ModelsResponse Fetched"
  now_store :: int

definition cache_valid :: "Driver \<Rightarrow> int \<Rightarrow> bool" where
  "cache_valid s now = (length (modelsCache s) > 0 \<and> now - modelsCacheTime s < CACHE_TTL)"

definition fetchModels ::
  "FetchWorld \<Rightarrow> Driver \<Rightarrow> OpenRouterModel list \<times> Driver \<times> Request list" where
  "fetchModels w s =
     (if cache_valid s (now_check w) then (modelsCache s, s, [])
      else
        (case setting_apiKey w of
           None \<Rightarrow> (getDefaultModels, s, [])
         | Some key \<Rightarrow>
             if key = [] then (getDefaultModels, s, [])
             else
               let req = get_request ''https://openrouter.ai/api/v1/models'' key in
               (case fetched_models w of
                  Rejected \<Rightarrow> (getDefaultModels, s, [req])
                | Resolved response \<Rightarrow>
                    if \<not> ok response then (getDefaultModels, s, [req])
                    else
                      (case payload response of
                         Json data \<Rightarrow>
                           (case models_data data of
                              None \<Rightarrow> (getDefaultModels, s, [req])
                            | Some ms \<Rightarrow>
                                (let cache =
                                       map (\<lambda>m. \<lparr>model_id = model_id m, model_name = model_name m\<rparr>) ms
                                 in (cache,
                                     s\<lparr>modelsCache := cache, modelsCacheTime := now_store w\<rparr>,
                                     [req])))
                       | _ \<Rightarrow> (getDefaultModels, s, [req])))))"

text \<open>
  The autocomplete listener. \<open>String.prototype.toLowerCase\<close> and
  \<open>String.prototype.localeCompare\<close> belong to the platform and its locale data; they are
  parameters of the model.
\<close>

definition filtered :: "(string \<Rightarrow> string) \<Rightarrow> string \<Rightarrow> OpenRouterModel list \<Rightarrow> OpenRouterModel list" where
  "filtered toLowerCase query models =
     (let lowerQuery = toLowerCase query in
      filter (\<lambda>m. includes_js (toLowerCase (model_id m)) lowerQuery \<or>
                  includes_js (toLowerCase (model_name m)) lowerQuery) models)"

definition compare_models ::
  "(string \<Rightarrow> string \<Rightarrow> int) \<Rightarrow> OpenRouterModel \<Rightarrow> OpenRouterModel \<Rightarrow> int" where
  "compare_models localeCompare a b =
     (let aFeatured = model_id a \<in> set FEATURED_MODELS;
          bFeatured = model_id b \<in> set FEATURED_MODELS
      in if aFeatured \<and> \<not> bFeatured then -1
         else if \<not> aFeatured \<and> bFeatured then 1
         else if aFeatured \<and> bFeatured then
           indexOf FEATURED_MODELS (model_id a) - indexOf FEATURED_MODELS (model_id b)
         else localeCompare (model_name a) (model_name b))"

record AutocompleteItem =
  item_id :: string
  item_name :: string
  description :: string

definition present :: "OpenRouterModel \<Rightarrow> AutocompleteItem" where
  "present m = \<lparr>item_id = model_id m, item_name = model_name m, description = model_id m\<rparr>"

definition rank_models ::
  "(string \<Rightarrow> string) \<Rightarrow> (string \<Rightarrow> string \<Rightarrow> int) \<Rightarrow> string \<Rightarrow> OpenRouterModel list \<Rightarrow>
     AutocompleteItem list" where
  "rank_models toLowerCase localeCompare query models =
     map present
       (take 50 (sort_by (compare_models localeCompare) (filtered toLowerCase query models)))"

definition getModelAutocomplete ::
  "(string \<Rightarrow> string) \<Rightarrow> (string \<Rightarrow> string \<Rightarrow> int) \<Rightarrow> string \<Rightarrow> FetchWorld \<Rightarrow> Driver \<Rightarrow>
     AutocompleteItem list \<times> Driver \<times> Request list" where
  "getModelAutocomplete toLowerCase localeCompare query w s =
     (case fetchModels w s of
        (models, s', reqs) \<Rightarrow> (rank_models toLowerCase localeCompare query models, s', reqs))"

text \<open>Pairing: the \<open>login\<close> handler and the key validation it calls.\<close>

record PairSession =
  pair_apiKey :: string
  pair_defaultModel :: string

record LoginData =
  username :: "string option"
  password :: "string option"

definition validateApiKey :: "string \<Rightarrow> 'p Fetched \<Rightarrow> bool \<times> Request list" where
  "validateApiKey key fetched =
     (let req = get_request ''https://openrouter.ai/api/v1/models'' key in
      (case fetched of
         Rejected \<Rightarrow> (False, [req])
       | Resolved response \<Rightarrow> (ok response, [req])))"

definition invalid_key :: JsError where
  "invalid_key = Error ''Invalid API key. It should start with sk-or-''"

definition login ::
  "PairSession \<Rightarrow> LoginData \<Rightarrow> 'p Fetched \<Rightarrow> (JsError + bool) \<times> PairSession \<times> Request list" where
  "login pairData data fetched =
     (let dflt = or_else (map_option trim (password data)) ''google/gemini-3-flash-preview'' in
      (case map_option trim (username data) of
         None \<Rightarrow> (Inl invalid_key, pairData, [])
       | Some key \<Rightarrow>
           if key = [] \<or> \<not> startsWith key ''sk-or-'' then (Inl invalid_key, pairData, [])
           else
             (case validateApiKey key fetched of
                (isValid, reqs) \<Rightarrow>
                  if \<not> isValid then
                    (Inl (Error ''API key validation failed. Please check your key.''),
                     pairData, reqs)
                  else
                    (Inr True, pairData\<lparr>pair_apiKey := key, pair_defaultModel := dflt\<rparr>,
                     reqs))))"

section \<open>Notions the properties are stated with\<close>

text \<open>
  The two properties of a request that the specification asks of the remote calls: the
  bound on the output tokens, and the headers naming the calling application.
\<close>

definition attaches_max_tokens :: "Request \<Rightarrow> bool" where
  "attaches_max_tokens r = (map_option max_tokens (body r) = Some 500)"

definition sends_identification :: "Request \<Rightarrow> bool" where
  "sends_identification r =
     (map_of (headers r) ''HTTP-Referer'' = Some ''https://homey.app'' \<and>
      map_of (headers r) ''X-Title'' = Some ''Homey OpenRouter'')"

text \<open>
  A call of \<open>fetchModels\<close> is a successful refresh when the cache is not served and the
  request comes back with a success status and a payload that has the list.
\<close>

definition refresh_succeeds :: "FetchWorld \<Rightarrow> Driver \<Rightarrow> bool" where
  "refresh_succeeds w s =
     (\<not> cache_valid s (now_check w) \<and> truthy (setting_apiKey w) \<and>
      (case fetched_models w of
         Rejected \<Rightarrow> False
       | Resolved r \<Rightarrow>
           ok r \<and> (case payload r of Json p \<Rightarrow> models_data p \<noteq> None | _ \<Rightarrow> False)))"

text \<open>Calls of \<open>fetchModels\<close> one after the other, each in its own world.\<close>

fun run_fetches :: "FetchWorld list \<Rightarrow> Driver \<Rightarrow> Driver" where
  "run_fetches [] s = s"
| "run_fetches (w # ws) s = run_fetches ws (fst (snd (fetchModels w s)))"

fun no_refresh :: "FetchWorld list \<Rightarrow> Driver \<Rightarrow> bool" where
  "no_refresh [] s = True"
| "no_refresh (w # ws) s =
     (\<not> refresh_succeeds w s \<and> no_refresh ws (fst (snd (fetchModels w s))))"

section \<open>Example values\<close>

definition example_device :: "real Device" where
  "example_device =
     \<lparr>apiKey = ''sk-or-k'', defaultModel = ''google/gemini-3-flash-preview'',
      openrouter_credits = Some 5, openrouter_status = Some True\<rparr>"

definition hello_payload :: OpenRouterResponse where
  "hello_payload =
     \<lparr>choices = Some [\<lparr>message = Some \<lparr>msg_content = Some '' Hello! ''\<rparr>\<rparr>], error = None\<rparr>"

definition quota_payload :: OpenRouterResponse where
  "quota_payload = \<lparr>choices = None, error = Some \<lparr>err_message = Some ''insufficient_quota''\<rparr>\<rparr>"

definition bare_error_payload :: OpenRouterResponse where
  "bare_error_payload =
     \<lparr>choices = Some [\<lparr>message = Some \<lparr>msg_content = Some ''hi''\<rparr>\<rparr>],
      error = Some \<lparr>err_message = None\<rparr>\<rparr>"

definition credits_payload :: "real CreditsResponse" where
  "credits_payload = \<lparr>credits_data = Some \<lparr>total_credits = 12.5, total_usage = 7.5\<rparr>\<rparr>"

definition outage :: "real CreditsResponse Fetched" where
  "outage = Resolved \<lparr>status = 503, payload = NotJson\<rparr>"

definition example_catalog :: "OpenRouterModel list" where
  "example_catalog =
     [\<lparr>model_id = ''acme/foo'', model_name = ''foo''\<rparr>,
      \<lparr>model_id = ''openai/gpt-4.1'', model_name = ''gpt-4.1''\<rparr>]"

definition fresh_driver :: Driver where
  "fresh_driver = \<lparr>modelsCache = [], modelsCacheTime = 0\<rparr>"

definition refresh_world :: FetchWorld where
  "refresh_world =
     \<lparr>now_check = 1000, setting_apiKey = Some ''sk-or-k'',
      fetched_models =
        Resolved \<lparr>status = 200, payload = Json \<lparr>models_data = Some example_catalog\<rparr>\<rparr>,
      now_store = 1200\<rparr>"

definition cached_driver :: Driver where
  "cached_driver = \<lparr>modelsCache = example_catalog, modelsCacheTime = 1200\<rparr>"

definition keyless_world :: FetchWorld where
  "keyless_world =
     \<lparr>now_check = 900000, setting_apiKey = None, fetched_models = Rejected, now_store = 900001\<rparr>"

text \<open>
  Instances of the two platform functions for concrete runs: lower-casing of the letters
  A to Z, and comparison by code units.
\<close>

definition ascii_toLowerCase :: "string \<Rightarrow> string" where
  "ascii_toLowerCase s =
     map (\<lambda>c. if CHR ''A'' \<le> c \<and> c \<le> CHR ''Z'' then char_of (of_char c + (32::nat)) else c) s"

definition unit_compare :: "string \<Rightarrow> string \<Rightarrow> int" where
  "unit_compare a b = (if a < b then -1 else if a = b then 0 else 1)"

definition ranking_catalog :: "OpenRouterModel list" where
  "ranking_catalog =
     [\<lparr>model_id = ''zeta/zeta-1'', model_name = ''zeta''\<rparr>,
      \<lparr>model_id = ''openai/gpt-4.1'', model_name = ''GPT-4.1''\<rparr>,
      \<lparr>model_id = ''acme/foo'', model_name = ''foo''\<rparr>,
      \<lparr>model_id = ''google/gemini-3-flash-preview'', model_name = ''Gemini 3 Flash''\<rparr>]"

definition ranking_world :: FetchWorld where
  "ranking_world =
     \<lparr>now_check = 1000, setting_apiKey = Some ''sk-or-k'',
      fetched_models =
        Resolved \<lparr>status = 200, payload = Json \<lparr>models_data = Some ranking_catalog\<rparr>\<rparr>,
      now_store = 1200\<rparr>"

section \<open>Strings and arrays\<close>

lemma digits_of_200: "digits_of 200 = ''200''"
  by code_simp

lemma dropWhile_decomp: "\<exists>pre. s = pre @ dropWhile P s \<and> list_all P pre"
  by (metis takeWhile_dropWhile_id list_all_iff set_takeWhileD)

lemma trim_decomp:
  "\<exists>pre post. s = pre @ trim s @ post \<and> list_all isWhiteSpace pre \<and> list_all isWhiteSpace post"
proof -
  obtain pre where pre: "s = pre @ dropWhile isWhiteSpace s" "list_all isWhiteSpace pre"
    using dropWhile_decomp by blast
  obtain q where q: "rev (dropWhile isWhiteSpace s) = q @ dropWhile isWhiteSpace (rev (dropWhile isWhiteSpace s))"
      "list_all isWhiteSpace q"
    using dropWhile_decomp by blast
  from q(1) have "dropWhile isWhiteSpace s = trim s @ rev q"
    unfolding trim_def by (metis rev_append rev_rev_ident)
  with pre have "s = pre @ trim s @ rev q" by simp
  moreover have "list_all isWhiteSpace (rev q)" using q(2) by (simp add: list_all_iff)
  ultimately show ?thesis using pre(2) by blast
qed

lemma trim_ends:
  "trim s = [] \<or> (\<not> isWhiteSpace (hd (trim s)) \<and> \<not> isWhiteSpace (last (trim s)))"
proof (cases "trim s = []")
  case True then show ?thesis by simp
next
  case False
  let ?d = "dropWhile isWhiteSpace s"
  let ?e = "dropWhile isWhiteSpace (rev ?d)"
  have e: "?e \<noteq> []" using False by (simp add: trim_def)
  then have l: "\<not> isWhiteSpace (hd ?e)" by (rule hd_dropWhile)
  have "last (trim s) = hd ?e" using e by (simp add: trim_def last_rev)
  with l have 1: "\<not> isWhiteSpace (last (trim s))" by simp
  have d: "?d \<noteq> []" using e by (metis dropWhile.simps(1) rev.simps(1))
  then have hd: "\<not> isWhiteSpace (hd ?d)" by (rule hd_dropWhile)
  obtain q where q: "rev ?d = q @ ?e" using dropWhile_decomp by blast
  then have "?d = trim s @ rev q" unfolding trim_def by (metis rev_append rev_rev_ident)
  then have "hd ?d = hd (trim s)" using False by (metis hd_append2)
  with hd have "\<not> isWhiteSpace (hd (trim s))" by simp
  with 1 show ?thesis by simp
qed

section \<open>Text generation\<close>

lemma at_index_0: "at_index xs 0 = Some x \<longleftrightarrow> (\<exists>rest. xs = x # rest)"
  by (cases xs) auto

lemma first_content_Some:
  "first_content data = Some c \<longleftrightarrow>
     (\<exists>ch rest m. choices data = Some (ch # rest) \<and> message ch = Some m \<and> msg_content m = Some c)"
  by (auto simp: first_content_def at_index_0 split: option.splits)

text \<open>
  C6. Whatever the prompt, the model and the system prompt are, and whatever the network
  would have answered, \<open>generateText\<close> on a device whose API key is empty fails with the
  error \<open>API key not configured\<close> and issues no request.
\<close>

theorem generateText_no_key:
  "apiKey d = [] \<Longrightarrow>
     generateText d prompt mdl systemPrompt fetched = (Inl (Error ''API key not configured''), [])"
  by (simp add: generateText_def)

theorem generateText_no_key_witness:
  "apiKey (example_device\<lparr>apiKey := []\<rparr>) = [] \<and>
   generateText (example_device\<lparr>apiKey := []\<rparr>) ''Hi'' (Some ''m'') (Some ''Be terse'')
       (Resolved \<lparr>status = 200, payload = Json hello_payload\<rparr>)
     = (Inl (Error ''API key not configured''), [])"
  using generateText_no_key [of "example_device\<lparr>apiKey := []\<rparr>" "''Hi''" "Some ''m''"
      "Some ''Be terse''" "Resolved \<lparr>status = 200, payload = Json hello_payload\<rparr>"]
  by simp

text \<open>
  C7. A \<open>generateText\<close> call that goes out (the key is configured) issues exactly one
  request. Its messages are the single user message carrying the prompt when the system
  prompt is absent or empty, and the system message carrying the system prompt followed by
  that user message when the system prompt is non-empty.
\<close>

theorem generateText_messages:
  "apiKey d \<noteq> [] \<Longrightarrow>
     (\<not> truthy systemPrompt \<longrightarrow>
        map (map_option messages \<circ> body) (snd (generateText d prompt mdl systemPrompt fetched))
          = [Some [\<lparr>role = User, content = prompt\<rparr>]]) \<and>
     (\<forall>sp. systemPrompt = Some sp \<and> sp \<noteq> [] \<longrightarrow>
        map (map_option messages \<circ> body) (snd (generateText d prompt mdl systemPrompt fetched))
          = [Some [\<lparr>role = System, content = sp\<rparr>, \<lparr>role = User, content = prompt\<rparr>]])"
  by (auto simp: generateText_def build_messages_def chat_request_def truthy_def Let_def
      split: option.splits)

theorem generateText_messages_witness:
  "apiKey example_device \<noteq> [] \<and>
   map (map_option messages \<circ> body)
     (snd (generateText example_device ''Hi'' (Some ''m'') (Some ''Be terse'')
        (Resolved \<lparr>status = 200, payload = Json hello_payload\<rparr>)))
     = [Some [\<lparr>role = System, content = ''Be terse''\<rparr>, \<lparr>role = User, content = ''Hi''\<rparr>]] \<and>
   map (map_option messages \<circ> body)
     (snd (generateText example_device ''Hi'' (Some ''m'') (Some [])
        (Resolved \<lparr>status = 200, payload = Json hello_payload\<rparr>)))
     = [Some [\<lparr>role = User, content = ''Hi''\<rparr>]] \<and>
   map (map_option messages \<circ> body)
     (snd (generateText example_device ''Hi'' (Some ''m'') None
        (Resolved \<lparr>status = 200, payload = Json hello_payload\<rparr>)))
     = [Some [\<lparr>role = User, content = ''Hi''\<rparr>]]"
proof -
  have k: "apiKey example_device \<noteq> []" by (simp add: example_device_def)
  note w = generateText_messages [OF k, of _ "''Hi''" "Some ''m''"
      "Resolved \<lparr>status = 200, payload = Json hello_payload\<rparr>"]
  from w [of "Some ''Be terse''"] w [of "Some []"] w [of None] k
  show ?thesis by (simp add: truthy_def)
qed

section \<open>The success payload of a completion\<close>

text \<open>
  C1, as stated, fails: a success payload whose error object has no message and whose
  first choice carries content is neither an error object with a message nor a payload
  without content, yet the call does not return the content; it fails with
  \<open>Unknown API error\<close>.
\<close>

theorem generateText_error_without_message:
  "err_message \<lparr>err_message = None\<rparr> = None \<and>
   first_content bare_error_payload = Some ''hi'' \<and>
   error bare_error_payload = Some \<lparr>err_message = None\<rparr> \<and>
   fst (generateText example_device ''Hi'' None None
          (Resolved \<lparr>status = 200, payload = Json bare_error_payload\<rparr>))
     = Inl (Error ''Unknown API error'') \<and>
   fst (generateText example_device ''Hi'' None None
          (Resolved \<lparr>status = 200, payload = Json bare_error_payload\<rparr>))
     \<noteq> Inr (trim ''hi'')"
  by (simp add: generateText_def read_completion_def ok_def first_content_def
      bare_error_payload_def example_device_def or_else_def)

text \<open>
  C1, amended. On a success status with a parsed payload and a configured key: an error
  object makes the call fail, with its message when that is present and non-empty and with
  \<open>Unknown API error\<close> otherwise; without an error object, absent or empty content of
  the first choice makes the call fail with \<open>No response content received\<close>; otherwise
  the call returns the content trimmed, that is the content without a leading and a
  trailing run of white space, neither end of the result being white space.
\<close>

theorem generateText_success_payload:
  assumes "apiKey d \<noteq> []" and "ok response" and "payload response = Json data"
  shows
    "(\<forall>e m. error data = Some e \<and> err_message e = Some m \<and> m \<noteq> [] \<longrightarrow>
        fst (generateText d prompt mdl systemPrompt (Resolved response)) = Inl (Error m)) \<and>
     (\<forall>e. error data = Some e \<and> \<not> truthy (err_message e) \<longrightarrow>
        fst (generateText d prompt mdl systemPrompt (Resolved response))
          = Inl (Error ''Unknown API error'')) \<and>
     (error data = None \<and> \<not> truthy (first_content data) \<longrightarrow>
        fst (generateText d prompt mdl systemPrompt (Resolved response))
          = Inl (Error ''No response content received'')) \<and>
     (\<forall>c. error data = None \<and> first_content data = Some c \<and> c \<noteq> [] \<longrightarrow>
        fst (generateText d prompt mdl systemPrompt (Resolved response)) = Inr (trim c) \<and>
        (\<exists>pre post. c = pre @ trim c @ post \<and>
           list_all isWhiteSpace pre \<and> list_all isWhiteSpace post) \<and>
        (trim c = [] \<or> (\<not> isWhiteSpace (hd (trim c)) \<and> \<not> isWhiteSpace (last (trim c)))))"
proof -
  have r: "fst (generateText d prompt mdl systemPrompt (Resolved response)) =
      (case error data of
         Some e \<Rightarrow> Inl (Error (or_else (err_message e) ''Unknown API error''))
       | None \<Rightarrow>
           (case first_content data of
              None \<Rightarrow> Inl (Error ''No response content received'')
            | Some c \<Rightarrow>
                if c = [] then Inl (Error ''No response content received'') else Inr (trim c)))"
    using assms by (simp add: generateText_def read_completion_def Let_def)
  show ?thesis
    unfolding r using trim_decomp trim_ends
    by (auto simp: or_else_def truthy_def split: option.splits)
qed

theorem generateText_success_payload_witness:
  "fst (generateText example_device ''Hi'' (Some ''m'') (Some ''Be terse'')
          (Resolved \<lparr>status = 200, payload = Json hello_payload\<rparr>)) = Inr ''Hello!'' \<and>
   fst (generateText example_device ''Hi'' (Some ''m'') (Some ''Be terse'')
          (Resolved \<lparr>status = 200, payload = Json quota_payload\<rparr>))
     = Inl (Error ''insufficient_quota'') \<and>
   fst (generateText example_device ''Hi'' (Some ''m'') (Some ''Be terse'')
          (Resolved \<lparr>status = 200, payload = Json \<lparr>choices = Some [], error = None\<rparr>\<rparr>))
     = Inl (Error ''No response content received'')"
proof -
  have k: "apiKey example_device \<noteq> []" by (simp add: example_device_def)
  have o: "ok \<lparr>status = 200, payload = Json p\<rparr>" for p :: OpenRouterResponse
    by (simp add: ok_def)
  have p: "payload \<lparr>status = 200, payload = Json p\<rparr> = Json p" for p :: OpenRouterResponse
    by simp
  note w = generateText_success_payload [OF k o p, of _ "''Hi''" "Some ''m''" "Some ''Be terse''"]
  have t: "trim '' Hello! '' = ''Hello!''" by (simp add: trim_def isWhiteSpace_def)
  from w [of hello_payload] have 1: "fst (generateText example_device ''Hi'' (Some ''m'') (Some ''Be terse'')
          (Resolved \<lparr>status = 200, payload = Json hello_payload\<rparr>)) = Inr ''Hello!''"
    by (simp add: hello_payload_def first_content_def t)
  from w [of quota_payload] have 2: "fst (generateText example_device ''Hi'' (Some ''m'') (Some ''Be terse'')
          (Resolved \<lparr>status = 200, payload = Json quota_payload\<rparr>))
     = Inl (Error ''insufficient_quota'')"
    by (simp add: quota_payload_def)
  from w [of "\<lparr>choices = Some [], error = None\<rparr>"] have 3: "fst (generateText example_device ''Hi'' (Some ''m'') (Some ''Be terse'')
          (Resolved \<lparr>status = 200, payload = Json \<lparr>choices = Some [], error = None\<rparr>\<rparr>))
     = Inl (Error ''No response content received'')"
    by (simp add: first_content_def truthy_def)
  from 1 2 3 show ?thesis by simp
qed

section \<open>What the requests carry\<close>

text \<open>
  C8, as stated, fails: the request of the balance probe has no body, hence no bound on
  the output tokens, and its only header is \<open>Authorization\<close>.
\<close>

theorem credits_request_bare:
  "snd (checkCredits True (Resolved \<lparr>status = 200, payload = Json credits_payload\<rparr>) example_device)
     = [\<lparr>url = ''https://openrouter.ai/api/v1/credits'', http_method = GET,
         headers = [(''Authorization'', ''Bearer sk-or-k'')], body = None\<rparr>] \<and>
   \<not> attaches_max_tokens
       \<lparr>url = ''https://openrouter.ai/api/v1/credits'', http_method = GET,
        headers = [(''Authorization'', ''Bearer sk-or-k'')], body = None\<rparr> \<and>
   \<not> sends_identification
       \<lparr>url = ''https://openrouter.ai/api/v1/credits'', http_method = GET,
        headers = [(''Authorization'', ''Bearer sk-or-k'')], body = None\<rparr>"
  by (simp add: checkCredits_def ok_def credits_payload_def example_device_def get_request_def
      attaches_max_tokens_def sends_identification_def set_credits_def)

text \<open>
  C8, amended. The chat completion call issues one request, which attaches
  \<open>max_tokens = 500\<close> and sends the identification headers \<open>HTTP-Referer\<close> and
  \<open>X-Title\<close> next to the bearer token; every request of the balance probe and of the
  model listing is a \<open>GET\<close> without a body whose only header is the bearer
  \<open>Authorization\<close>.
\<close>

theorem requests_of_the_calls:
  "(apiKey d \<noteq> [] \<longrightarrow>
      (\<exists>r. snd (generateText d prompt mdl systemPrompt fetched) = [r] \<and>
           attaches_max_tokens r \<and> sends_identification r \<and>
           map_of (headers r) ''Authorization'' = Some (''Bearer '' @ apiKey d))) \<and>
   (\<forall>r \<in> set (snd (checkCredits stored fetched_credits d)).
      http_method r = GET \<and> body r = None \<and>
      headers r = [(''Authorization'', ''Bearer '' @ apiKey d)]) \<and>
   (\<forall>r \<in> set (snd (snd (fetchModels w s))).
      http_method r = GET \<and> body r = None \<and>
      map (\<lambda>h. Some (snd h)) (headers r) = [map_option ((@) ''Bearer '') (setting_apiKey w)] \<and>
      map fst (headers r) = [''Authorization''])"
proof (intro conjI)
  show "apiKey d \<noteq> [] \<longrightarrow>
      (\<exists>r. snd (generateText d prompt mdl systemPrompt fetched) = [r] \<and>
           attaches_max_tokens r \<and> sends_identification r \<and>
           map_of (headers r) ''Authorization'' = Some (''Bearer '' @ apiKey d))"
    by (simp add: generateText_def chat_request_def attaches_max_tokens_def
        sends_identification_def Let_def)
  show "\<forall>r \<in> set (snd (checkCredits stored fetched_credits d)).
      http_method r = GET \<and> body r = None \<and>
      headers r = [(''Authorization'', ''Bearer '' @ apiKey d)]"
    by (auto simp: checkCredits_def get_request_def Let_def
        split: Fetched.splits Body.splits option.splits if_splits)
  show "\<forall>r \<in> set (snd (snd (fetchModels w s))).
      http_method r = GET \<and> body r = None \<and>
      map (\<lambda>h. Some (snd h)) (headers r) = [map_option ((@) ''Bearer '') (setting_apiKey w)] \<and>
      map fst (headers r) = [''Authorization'']"
    by (auto simp: fetchModels_def get_request_def Let_def
        split: Fetched.splits Body.splits option.splits if_splits)
qed

theorem requests_of_the_calls_witness:
  "apiKey example_device \<noteq> [] \<and>
   length (snd (generateText example_device ''Hi'' None None
          (Resolved \<lparr>status = 200, payload = Json hello_payload\<rparr>))) = 1 \<and>
   attaches_max_tokens
     (hd (snd (generateText example_device ''Hi'' None None
                 (Resolved \<lparr>status = 200, payload = Json hello_payload\<rparr>)))) \<and>
   sends_identification
     (hd (snd (generateText example_device ''Hi'' None None
                 (Resolved \<lparr>status = 200, payload = Json hello_payload\<rparr>)))) \<and>
   length (snd (checkCredits True outage example_device)) = 1 \<and>
   body (hd (snd (checkCredits True outage example_device))) = None \<and>
   headers (hd (snd (checkCredits True outage example_device)))
     = [(''Authorization'', ''Bearer sk-or-k'')] \<and>
   length (snd (snd (fetchModels refresh_world fresh_driver))) = 1 \<and>
   body (hd (snd (snd (fetchModels refresh_world fresh_driver)))) = None \<and>
   map fst (headers (hd (snd (snd (fetchModels refresh_world fresh_driver)))))
     = [''Authorization'']"
proof -
  let ?g = "snd (generateText example_device ''Hi'' None None
          (Resolved \<lparr>status = 200, payload = Json hello_payload\<rparr>))"
  let ?c = "snd (checkCredits True outage example_device)"
  let ?f = "snd (snd (fetchModels refresh_world fresh_driver))"
  note t = requests_of_the_calls [of example_device "''Hi''" None None
      "Resolved \<lparr>status = 200, payload = Json hello_payload\<rparr>" True outage
      refresh_world fresh_driver]
  have k: "apiKey example_device \<noteq> []" "apiKey example_device = ''sk-or-k''"
    by (simp_all add: example_device_def)
  from t k(1) obtain r where r: "?g = [r]" "attaches_max_tokens r" "sends_identification r"
    by blast
  have c: "length ?c = 1"
    by (simp add: checkCredits_def outage_def example_device_def ok_def)
  then have "hd ?c \<in> set ?c" by (cases ?c) auto
  with t k(2) have c': "body (hd ?c) = None"
      "headers (hd ?c) = [(''Authorization'', ''Bearer sk-or-k'')]" by auto
  have f: "length ?f = 1"
    by (simp add: fetchModels_def refresh_world_def fresh_driver_def cache_valid_def ok_def Let_def)
  then have "hd ?f \<in> set ?f" by (cases ?f) auto
  with t have f': "body (hd ?f) = None" "map fst (headers (hd ?f)) = [''Authorization'']"
    by auto
  from k(1) r c c' f f' show ?thesis by simp
qed

section \<open>The balance probe\<close>

text \<open>
  C9. A run of \<open>checkCredits\<close> that fails (no API key, a rejected request, a non-success
  status, a body that cannot be read or parsed, or a payload without the \<open>data\<close> field)
  leaves the device as it was, in particular the published credits value. A successful read
  that the host stores publishes \<open>total_credits - total_usage\<close>, and whenever a run
  changes the device, the read was successful and that difference is what was published.
\<close>

theorem checkCredits_publishes:
  "((apiKey d = [] \<or> fetched = Rejected \<or>
      (\<exists>r. fetched = Resolved r \<and>
         (\<not> ok r \<or> payload r = Unreadable \<or> payload r = NotJson \<or>
          (\<exists>p. payload r = Json p \<and> credits_data p = None)))) \<longrightarrow>
      fst (checkCredits stored fetched d) = d) \<and>
   (\<forall>r p cd. apiKey d \<noteq> [] \<and> fetched = Resolved r \<and> ok r \<and> payload r = Json p \<and>
        credits_data p = Some cd \<and> stored \<longrightarrow>
      fst (checkCredits stored fetched d)
        = d\<lparr>openrouter_credits := Some (total_credits cd - total_usage cd)\<rparr>) \<and>
   (fst (checkCredits stored fetched d) \<noteq> d \<longrightarrow>
      (\<exists>r p cd. apiKey d \<noteq> [] \<and> fetched = Resolved r \<and> ok r \<and> payload r = Json p \<and>
         credits_data p = Some cd \<and>
         fst (checkCredits stored fetched d)
           = d\<lparr>openrouter_credits := Some (total_credits cd - total_usage cd)\<rparr>))"
proof -
  let ?d' = "fst (checkCredits stored fetched d)"
  have nokey: "apiKey d = [] \<Longrightarrow> ?d' = d"
    by (simp add: checkCredits_def)
  have rejected: "fetched = Rejected \<Longrightarrow> ?d' = d"
    by (simp add: checkCredits_def Let_def)
  have notok: "fetched = Resolved r \<Longrightarrow> \<not> ok r \<Longrightarrow> ?d' = d" for r
    by (simp add: checkCredits_def Let_def)
  have unread: "fetched = Resolved r \<Longrightarrow> payload r = Unreadable \<Longrightarrow> ?d' = d" for r
    by (simp add: checkCredits_def Let_def)
  have notjson: "fetched = Resolved r \<Longrightarrow> payload r = NotJson \<Longrightarrow> ?d' = d" for r
    by (simp add: checkCredits_def Let_def)
  have nodata: "fetched = Resolved r \<Longrightarrow> payload r = Json p \<Longrightarrow> credits_data p = None \<Longrightarrow> ?d' = d"
    for r p
    by (simp add: checkCredits_def Let_def)
  have read: "apiKey d \<noteq> [] \<Longrightarrow> fetched = Resolved r \<Longrightarrow> ok r \<Longrightarrow> payload r = Json p \<Longrightarrow>
      credits_data p = Some cd \<Longrightarrow>
      ?d' = set_credits stored (total_credits cd - total_usage cd) d" for r p cd
    by (simp add: checkCredits_def Let_def)
  have 1: "(apiKey d = [] \<or> fetched = Rejected \<or>
      (\<exists>r. fetched = Resolved r \<and>
         (\<not> ok r \<or> payload r = Unreadable \<or> payload r = NotJson \<or>
          (\<exists>p. payload r = Json p \<and> credits_data p = None)))) \<longrightarrow> ?d' = d"
    using nokey rejected notok unread notjson nodata by blast
  have 2: "\<forall>r p cd. apiKey d \<noteq> [] \<and> fetched = Resolved r \<and> ok r \<and> payload r = Json p \<and>
        credits_data p = Some cd \<and> stored \<longrightarrow>
      ?d' = d\<lparr>openrouter_credits := Some (total_credits cd - total_usage cd)\<rparr>"
  proof (intro allI impI)
    fix r p cd
    assume a: "apiKey d \<noteq> [] \<and> fetched = Resolved r \<and> ok r \<and> payload r = Json p \<and>
        credits_data p = Some cd \<and> stored"
    then have "?d' = set_credits stored (total_credits cd - total_usage cd) d"
      using read by blast
    with a show "?d' = d\<lparr>openrouter_credits := Some (total_credits cd - total_usage cd)\<rparr>"
      by (simp add: set_credits_def)
  qed
  have 3: "?d' \<noteq> d \<longrightarrow>
      (\<exists>r p cd. apiKey d \<noteq> [] \<and> fetched = Resolved r \<and> ok r \<and> payload r = Json p \<and>
         credits_data p = Some cd \<and>
         ?d' = d\<lparr>openrouter_credits := Some (total_credits cd - total_usage cd)\<rparr>)"
  proof
    assume ne: "?d' \<noteq> d"
    with nokey rejected have k: "apiKey d \<noteq> []" and "fetched \<noteq> Rejected" by auto
    then obtain r where r: "fetched = Resolved r" by (cases fetched) auto
    with ne notok have okr: "ok r" by blast
    from ne r unread notjson obtain p where p: "payload r = Json p"
      by (cases "payload r") auto
    from ne r p nodata obtain cd where cd: "credits_data p = Some cd"
      by (cases "credits_data p") auto
    from read [OF k r okr p cd] ne
    have "?d' = d\<lparr>openrouter_credits := Some (total_credits cd - total_usage cd)\<rparr>"
      by (simp add: set_credits_def split: if_splits)
    with k r okr p cd show "\<exists>r p cd. apiKey d \<noteq> [] \<and> fetched = Resolved r \<and> ok r \<and>
         payload r = Json p \<and> credits_data p = Some cd \<and>
         ?d' = d\<lparr>openrouter_credits := Some (total_credits cd - total_usage cd)\<rparr>"
      by blast
  qed
  from 1 2 3 show ?thesis by blast
qed

theorem checkCredits_publishes_witness:
  "openrouter_credits example_device = Some 5 \<and>
   openrouter_credits (fst (checkCredits True outage example_device)) = Some 5 \<and>
   openrouter_credits (fst (checkCredits True Rejected example_device)) = Some 5 \<and>
   openrouter_credits
     (fst (checkCredits True
        (Resolved \<lparr>status = 200, payload = Json \<lparr>credits_data = Some \<lparr>total_credits = 12.5, total_usage = 10\<rparr>\<rparr>\<rparr>)
        example_device)) = Some 2.5"
proof -
  note failure = checkCredits_publishes [THEN conjunct1, rule_format]
  note success = checkCredits_publishes [THEN conjunct2, THEN conjunct1, rule_format]
  have c: "openrouter_credits example_device = Some 5" by (simp add: example_device_def)
  have 1: "fst (checkCredits True outage example_device) = example_device"
    by (rule failure) (simp add: outage_def ok_def)
  have 2: "fst (checkCredits True Rejected example_device) = example_device"
    by (rule failure) simp
  have 3: "fst (checkCredits True
        (Resolved \<lparr>status = 200, payload = Json \<lparr>credits_data = Some \<lparr>total_credits = 12.5, total_usage = 10\<rparr>\<rparr>\<rparr>)
        example_device)
      = example_device\<lparr>openrouter_credits :=
          Some (total_credits \<lparr>total_credits = 12.5, total_usage = 10\<rparr>
                - total_usage \<lparr>total_credits = 12.5, total_usage = (10::real)\<rparr>)\<rparr>"
    by (rule success
        [where r = "\<lparr>status = 200, payload = Json \<lparr>credits_data = Some \<lparr>total_credits = 12.5, total_usage = 10\<rparr>\<rparr>\<rparr>"
         and p = "\<lparr>credits_data = Some \<lparr>total_credits = 12.5, total_usage = 10\<rparr>\<rparr>"])
      (simp add: ok_def example_device_def)
  have 4: "openrouter_credits (example_device\<lparr>openrouter_credits :=
          Some (total_credits \<lparr>total_credits = 12.5, total_usage = 10\<rparr>
                - total_usage \<lparr>total_credits = 12.5, total_usage = (10::real)\<rparr>)\<rparr>) = Some 2.5"
    by simp
  show ?thesis unfolding 1 2 3 using c 4 by simp
qed

section \<open>Pairing\<close>

text \<open>
  C10. When the submitted key is absent, is empty once trimmed, or does not start with
  \<open>sk-or-\<close> once trimmed, the \<open>login\<close> handler fails with the error
  \<open>Invalid API key. It should start with sk-or-\<close>, whatever the network would have
  answered: it issues no request and leaves the pending pairing data unchanged.
\<close>

theorem login_rejects_malformed_key:
  "(\<not> truthy (map_option trim (username data)) \<or>
      (\<exists>u. username data = Some u \<and> \<not> prefix ''sk-or-'' (trim u))) \<longrightarrow>
     login pairData data fetched
       = (Inl (Error ''Invalid API key. It should start with sk-or-''), pairData, [])"
  by (auto simp: login_def invalid_key_def truthy_def startsWith_def Let_def split: option.splits)

theorem login_rejects_malformed_key_witness:
  "login \<lparr>pair_apiKey = ''sk-or-old'', pair_defaultModel = ''openai/gpt-4.1''\<rparr>
      \<lparr>username = Some ''  sk-live-123 '', password = Some ''m''\<rparr>
      (Resolved \<lparr>status = 200, payload = Json ()\<rparr>)
     = (Inl (Error ''Invalid API key. It should start with sk-or-''),
        \<lparr>pair_apiKey = ''sk-or-old'', pair_defaultModel = ''openai/gpt-4.1''\<rparr>, []) \<and>
   login \<lparr>pair_apiKey = ''sk-or-old'', pair_defaultModel = ''openai/gpt-4.1''\<rparr>
      \<lparr>username = Some ''   '', password = None\<rparr>
      (Resolved \<lparr>status = 200, payload = Json ()\<rparr>)
     = (Inl (Error ''Invalid API key. It should start with sk-or-''),
        \<lparr>pair_apiKey = ''sk-or-old'', pair_defaultModel = ''openai/gpt-4.1''\<rparr>, []) \<and>
   login \<lparr>pair_apiKey = ''sk-or-old'', pair_defaultModel = ''openai/gpt-4.1''\<rparr>
      \<lparr>username = None, password = None\<rparr>
      (Resolved \<lparr>status = 200, payload = Json ()\<rparr>)
     = (Inl (Error ''Invalid API key. It should start with sk-or-''),
        \<lparr>pair_apiKey = ''sk-or-old'', pair_defaultModel = ''openai/gpt-4.1''\<rparr>, [])"
proof -
  have t1: "trim ''  sk-live-123 '' = ''sk-live-123''" by (simp add: trim_def isWhiteSpace_def)
  have t2: "trim ''   '' = []" by (simp add: trim_def isWhiteSpace_def)
  note w = login_rejects_malformed_key [of _
      "\<lparr>pair_apiKey = ''sk-or-old'', pair_defaultModel = ''openai/gpt-4.1''\<rparr>"
      "Resolved \<lparr>status = 200, payload = Json ()\<rparr>"]
  from w [of "\<lparr>username = Some ''  sk-live-123 '', password = Some ''m''\<rparr>"]
       w [of "\<lparr>username = Some ''   '', password = None\<rparr>"]
       w [of "\<lparr>username = None, password = None\<rparr>"]
  show ?thesis by (simp add: t1 t2 truthy_def)
qed

section \<open>The model cache\<close>

lemma fetchModels_hit:
  "cache_valid s (now_check w) \<Longrightarrow> fetchModels w s = (modelsCache s, s, [])"
  by (simp add: fetchModels_def)

lemma fetchModels_fallback:
  assumes "\<not> cache_valid s (now_check w)" and "\<not> refresh_succeeds w s"
  shows "fst (fetchModels w s) = getDefaultModels \<and> fst (snd (fetchModels w s)) = s"
proof (cases "setting_apiKey w")
  case None
  with assms(1) show ?thesis by (simp add: fetchModels_def)
next
  case (Some key)
  show ?thesis
  proof (cases "key = []")
    case True
    with Some assms(1) show ?thesis by (simp add: fetchModels_def)
  next
    case False
    show ?thesis
    proof (cases "fetched_models w")
      case Rejected
      with Some False assms(1) show ?thesis by (simp add: fetchModels_def Let_def)
    next
      case (Resolved r)
      show ?thesis
      proof (cases "ok r")
        case False
        with Some \<open>key \<noteq> []\<close> Resolved assms(1) show ?thesis
          by (simp add: fetchModels_def Let_def)
      next
        case True
        with assms Some \<open>key \<noteq> []\<close> Resolved
        have "case payload r of Json p \<Rightarrow> models_data p = None | _ \<Rightarrow> True"
          by (simp add: refresh_succeeds_def truthy_def split: Body.splits)
        with Some \<open>key \<noteq> []\<close> Resolved True assms(1) show ?thesis
          by (simp add: fetchModels_def Let_def split: Body.splits)
      qed
    qed
  qed
qed

lemma fetchModels_frame: "\<not> refresh_succeeds w s \<Longrightarrow> fst (snd (fetchModels w s)) = s"
  using fetchModels_hit [of s w] fetchModels_fallback [of s w]
  by (cases "cache_valid s (now_check w)") simp_all

lemma run_fetches_frame: "no_refresh ws s \<Longrightarrow> run_fetches ws s = s"
proof (induction ws arbitrary: s)
  case Nil
  show ?case by simp
next
  case (Cons w ws)
  from Cons.prems have f: "fst (snd (fetchModels w s)) = s"
    by (simp add: fetchModels_frame)
  with Cons.prems have "no_refresh ws s" by simp
  then have "run_fetches ws s = s" by (rule Cons.IH)
  with f show ?case by simp
qed

text \<open>
  C4. When the cache is non-empty and younger than five minutes (300000 ms),
  \<open>fetchModels\<close> returns the cached list itself, leaves the driver as it is and issues no
  request. Consequently a later call that also finds the cache younger than five minutes,
  after any calls in between none of which was a successful refresh, returns the same list.
\<close>

theorem fetchModels_serves_cache:
  assumes "modelsCache s \<noteq> []" and "now_check w - modelsCacheTime s < 5 * 60 * 1000"
  shows "fetchModels w s = (modelsCache s, s, []) \<and>
     (\<forall>ws w'. no_refresh ws s \<and> now_check w' - modelsCacheTime s < 5 * 60 * 1000 \<longrightarrow>
        fst (fetchModels w' (run_fetches ws (fst (snd (fetchModels w s)))))
          = fst (fetchModels w s))"
proof -
  have v: "cache_valid s (now_check w)"
    using assms by (simp add: cache_valid_def CACHE_TTL_def)
  then have 1: "fetchModels w s = (modelsCache s, s, [])" by (rule fetchModels_hit)
  have "fst (fetchModels w' (run_fetches ws (fst (snd (fetchModels w s))))) = fst (fetchModels w s)"
    if "no_refresh ws s" and "now_check w' - modelsCacheTime s < 5 * 60 * 1000" for ws w'
  proof -
    have "cache_valid s (now_check w')"
      using assms(1) that(2) by (simp add: cache_valid_def CACHE_TTL_def)
    then have "fetchModels w' s = (modelsCache s, s, [])" by (rule fetchModels_hit)
    with 1 that(1) show ?thesis by (simp add: run_fetches_frame)
  qed
  with 1 show ?thesis by blast
qed

theorem fetchModels_serves_cache_witness:
  "modelsCache cached_driver \<noteq> [] \<and>
   fetchModels (refresh_world\<lparr>now_check := 301199\<rparr>) cached_driver
     = (example_catalog, cached_driver, []) \<and>
   no_refresh [keyless_world, refresh_world] cached_driver \<and>
   fst (fetchModels (keyless_world\<lparr>now_check := 2000\<rparr>)
          (run_fetches [keyless_world, refresh_world]
             (fst (snd (fetchModels (refresh_world\<lparr>now_check := 301199\<rparr>) cached_driver)))))
     = example_catalog"
proof -
  have c: "modelsCache cached_driver \<noteq> []"
    by (simp add: cached_driver_def example_catalog_def)
  have t: "now_check (refresh_world\<lparr>now_check := 301199\<rparr>) - modelsCacheTime cached_driver
      < 5 * 60 * 1000"
    by (simp add: cached_driver_def)
  note w = fetchModels_serves_cache [OF c t]
  have 1: "fetchModels (refresh_world\<lparr>now_check := 301199\<rparr>) cached_driver
      = (example_catalog, cached_driver, [])"
    using w [THEN conjunct1] by (simp add: cached_driver_def)
  have v: "cache_valid cached_driver (now_check refresh_world)"
    by (simp add: cache_valid_def cached_driver_def refresh_world_def CACHE_TTL_def
        example_catalog_def)
  have k: "fst (snd (fetchModels keyless_world cached_driver)) = cached_driver"
    by (simp add: fetchModels_def keyless_world_def cache_valid_def cached_driver_def
        CACHE_TTL_def)
  have n: "no_refresh [keyless_world, refresh_world] cached_driver"
    using v by (simp add: k) (simp add: refresh_succeeds_def keyless_world_def truthy_def)
  have t': "now_check (keyless_world\<lparr>now_check := 2000\<rparr>) - modelsCacheTime cached_driver
      < 5 * 60 * 1000"
    by (simp add: cached_driver_def)
  from w [THEN conjunct2, rule_format, of "[keyless_world, refresh_world]"
      "keyless_world\<lparr>now_check := 2000\<rparr>"] n t' 1
  have "fst (fetchModels (keyless_world\<lparr>now_check := 2000\<rparr>)
          (run_fetches [keyless_world, refresh_world]
             (fst (snd (fetchModels (refresh_world\<lparr>now_check := 301199\<rparr>) cached_driver)))))
     = example_catalog"
    by simp
  with c 1 n show ?thesis by blast
qed

text \<open>
  The display name of the fallback: the second segment of the identifier where there is
  a non-empty one, which for one separator is all that follows it, and the whole
  identifier without a separator.
\<close>

lemma split_acc_no_sep: "sep \<notin> set s \<Longrightarrow> split_acc sep cur s = [rev cur @ s]"
  by (induction s arbitrary: cur) auto

lemma split_acc_sep:
  "sep \<notin> set a \<Longrightarrow> split_acc sep cur (a @ sep # b) = (rev cur @ a) # split_acc sep [] b"
  by (induction a arbitrary: cur) auto

lemma default_name_no_separator: "CHR ''/'' \<notin> set i \<Longrightarrow> default_name i = i"
  by (simp add: default_name_def split_def split_acc_no_sep or_else_def)

lemma default_name_one_separator:
  assumes "CHR ''/'' \<notin> set a" and "CHR ''/'' \<notin> set b" and "b \<noteq> []"
  shows "default_name (a @ ''/'' @ b) = b"
  using assms by (simp add: default_name_def split_def split_acc_sep split_acc_no_sep or_else_def)

lemma default_name_second_segment:
  assumes "CHR ''/'' \<notin> set a" and "CHR ''/'' \<notin> set b" and "b \<noteq> []"
  shows "default_name (a @ ''/'' @ b @ ''/'' @ c) = b"
  using assms by (simp add: default_name_def split_def split_acc_sep or_else_def)

lemma getDefaultModels_value:
  "getDefaultModels =
     [\<lparr>model_id = ''google/gemini-3-flash-preview'', model_name = ''gemini-3-flash-preview''\<rparr>,
      \<lparr>model_id = ''google/gemini-2.0-flash-exp:free'', model_name = ''gemini-2.0-flash-exp:free''\<rparr>,
      \<lparr>model_id = ''openai/gpt-4.1-mini'', model_name = ''gpt-4.1-mini''\<rparr>,
      \<lparr>model_id = ''openai/gpt-4.1'', model_name = ''gpt-4.1''\<rparr>,
      \<lparr>model_id = ''anthropic/claude-opus-4.5'', model_name = ''claude-opus-4.5''\<rparr>,
      \<lparr>model_id = ''deepseek/deepseek-v3.2'', model_name = ''deepseek-v3.2''\<rparr>,
      \<lparr>model_id = ''meta-llama/llama-4-maverick'', model_name = ''llama-4-maverick''\<rparr>,
      \<lparr>model_id = ''mistralai/mistral-large-2512'', model_name = ''mistral-large-2512''\<rparr>]"
  by (simp add: getDefaultModels_def FEATURED_MODELS_def default_name_def split_def or_else_def)

lemma getDefaultModels_names:
  "\<forall>m \<in> set getDefaultModels.
     if CHR ''/'' \<in> set (model_id m)
     then model_id m = takeWhile (\<lambda>c. c \<noteq> CHR ''/'') (model_id m) @ ''/'' @ model_name m
     else model_name m = model_id m"
  unfolding getDefaultModels_value by simp

text \<open>
  C5. When the cache is not served and the refresh fails (the \<open>apiKey\<close> setting is
  absent or empty, the request is rejected, the status is not a success, the body cannot be
  read or parsed, or the payload has no \<open>data\<close> list), \<open>fetchModels\<close> returns the
  fallback and both cache fields keep their values. The fallback lists the featured
  identifiers in their order, each with the name that follows its \<open>/\<close>, or with the
  identifier itself where there is no \<open>/\<close>.
\<close>

theorem fetchModels_failed_refresh:
  assumes "\<not> cache_valid s (now_check w)"
    and "\<not> truthy (setting_apiKey w) \<or> fetched_models w = Rejected \<or>
      (\<exists>r. fetched_models w = Resolved r \<and>
         (\<not> ok r \<or> payload r = Unreadable \<or> payload r = NotJson \<or>
          (\<exists>p. payload r = Json p \<and> models_data p = None)))"
  shows "fst (fetchModels w s) = getDefaultModels \<and>
     modelsCache (fst (snd (fetchModels w s))) = modelsCache s \<and>
     modelsCacheTime (fst (snd (fetchModels w s))) = modelsCacheTime s \<and>
     map model_id (fst (fetchModels w s)) = FEATURED_MODELS \<and>
     (\<forall>m \<in> set (fst (fetchModels w s)).
        if CHR ''/'' \<in> set (model_id m)
        then model_id m = takeWhile (\<lambda>c. c \<noteq> CHR ''/'') (model_id m) @ ''/'' @ model_name m
        else model_name m = model_id m)"
proof -
  from assms(2) have "\<not> refresh_succeeds w s"
    by (auto simp: refresh_succeeds_def)
  with assms(1) have r: "fst (fetchModels w s) = getDefaultModels"
    and f: "fst (snd (fetchModels w s)) = s"
    using fetchModels_fallback by blast+
  have i: "map model_id getDefaultModels = FEATURED_MODELS"
    by (simp add: getDefaultModels_def comp_def)
  from r f i getDefaultModels_names show ?thesis by simp
qed

theorem fetchModels_failed_refresh_witness:
  "\<not> cache_valid cached_driver (now_check keyless_world) \<and>
   fetchModels keyless_world cached_driver = (getDefaultModels, cached_driver, []) \<and>
   fst (fetchModels
          (refresh_world\<lparr>now_check := 301200,
             fetched_models := Resolved \<lparr>status = 401, payload = NotJson\<rparr>\<rparr>) cached_driver)
     = getDefaultModels \<and>
   fst (snd (fetchModels
          (refresh_world\<lparr>now_check := 301200,
             fetched_models := Resolved \<lparr>status = 401, payload = NotJson\<rparr>\<rparr>) cached_driver))
     = cached_driver \<and>
   model_name (hd getDefaultModels) = ''gemini-3-flash-preview''"
proof -
  let ?w = "refresh_world\<lparr>now_check := 301200,
             fetched_models := Resolved \<lparr>status = 401, payload = NotJson\<rparr>\<rparr>"
  have v1: "\<not> cache_valid cached_driver (now_check keyless_world)"
    by (simp add: cache_valid_def cached_driver_def keyless_world_def CACHE_TTL_def)
  have v2: "\<not> cache_valid cached_driver (now_check ?w)"
    by (simp add: cache_valid_def cached_driver_def CACHE_TTL_def)
  have k: "\<not> truthy (setting_apiKey keyless_world)"
    by (simp add: keyless_world_def truthy_def)
  have u: "\<exists>r. fetched_models ?w = Resolved r \<and>
         (\<not> ok r \<or> payload r = Unreadable \<or> payload r = NotJson \<or>
          (\<exists>p. payload r = Json p \<and> models_data p = None))"
    by (simp add: ok_def)
  have q: "snd (snd (fetchModels keyless_world cached_driver)) = []"
    by (simp add: fetchModels_def keyless_world_def cache_valid_def cached_driver_def
        CACHE_TTL_def)
  note a = fetchModels_failed_refresh [OF v1 disjI1, OF k]
  note b = fetchModels_failed_refresh [OF v2 disjI2, OF disjI2, OF u]
  have 1: "fetchModels keyless_world cached_driver = (getDefaultModels, cached_driver, [])"
    using a q by (metis Driver.equality old.unit.exhaust prod.collapse)
  have 2: "fst (snd (fetchModels ?w cached_driver)) = cached_driver"
    using b by (metis Driver.equality old.unit.exhaust)
  have 3: "model_name (hd getDefaultModels) = ''gemini-3-flash-preview''"
    by (simp add: getDefaultModels_value)
  from v1 1 2 3 b show ?thesis by simp
qed

section \<open>Autocomplete\<close>

lemma includes_js_sublist: "includes_js s t \<longleftrightarrow> sublist t s"
  by (induction s) (auto simp: sublist_Cons_right)

lemma includes_js_empty: "includes_js s []"
  by (simp add: includes_js_sublist)

text \<open>
  C3. The models kept by the matcher are models of the catalog, in the catalog's order; a
  model of the catalog is kept exactly when the lower-cased query occurs as a contiguous
  part of its lower-cased identifier or of its lower-cased display name; and the empty
  query, which lower-casing leaves empty, keeps the whole catalog.
\<close>

theorem filtered_matches:
  "set (filtered toLowerCase query C) \<subseteq> set C \<and>
   subseq (filtered toLowerCase query C) C \<and>
   (\<forall>m. m \<in> set (filtered toLowerCase query C) \<longleftrightarrow>
      m \<in> set C \<and>
      ((\<exists>before after. toLowerCase (model_id m) = before @ toLowerCase query @ after) \<or>
       (\<exists>before after. toLowerCase (model_name m) = before @ toLowerCase query @ after))) \<and>
   (toLowerCase [] = [] \<longrightarrow> filtered toLowerCase [] C = C)"
proof -
  have 1: "set (filtered toLowerCase query C) \<subseteq> set C"
    by (auto simp: filtered_def Let_def)
  have 2: "subseq (filtered toLowerCase query C) C"
    by (simp add: filtered_def Let_def)
  have 3: "m \<in> set (filtered toLowerCase query C) \<longleftrightarrow>
      m \<in> set C \<and>
      ((\<exists>before after. toLowerCase (model_id m) = before @ toLowerCase query @ after) \<or>
       (\<exists>before after. toLowerCase (model_name m) = before @ toLowerCase query @ after))" for m
    by (simp add: filtered_def Let_def includes_js_sublist sublist_def)
  have 4: "toLowerCase [] = [] \<longrightarrow> filtered toLowerCase [] C = C"
    by (simp add: filtered_def Let_def includes_js_empty)
  from 1 2 3 4 show ?thesis by blast
qed

theorem filtered_matches_witness:
  "filtered ascii_toLowerCase ''gPt'' ranking_catalog
     = [\<lparr>model_id = ''openai/gpt-4.1'', model_name = ''GPT-4.1''\<rparr>] \<and>
   ascii_toLowerCase ''GPT-4.1'' = [] @ ascii_toLowerCase ''gPt'' @ ''-4.1'' \<and>
   ascii_toLowerCase [] = [] \<and>
   filtered ascii_toLowerCase [] ranking_catalog = ranking_catalog"
proof -
  have 1: "filtered ascii_toLowerCase ''gPt'' ranking_catalog
     = [\<lparr>model_id = ''openai/gpt-4.1'', model_name = ''GPT-4.1''\<rparr>]"
    by code_simp
  have 2: "ascii_toLowerCase ''GPT-4.1'' = [] @ ascii_toLowerCase ''gPt'' @ ''-4.1''"
    by code_simp
  have 3: "ascii_toLowerCase [] = []" by (simp add: ascii_toLowerCase_def)
  from filtered_matches [of ascii_toLowerCase "[]" ranking_catalog] 3
  have 4: "filtered ascii_toLowerCase [] ranking_catalog = ranking_catalog" by blast
  from 1 2 3 4 show ?thesis by blast
qed

lemma set_insert_by: "set (insert_by cmp x xs) = insert x (set xs)"
  by (induction xs) auto

lemma mset_insert_by: "mset (insert_by cmp x xs) = add_mset x (mset xs)"
  by (induction xs) auto

lemma mset_sort_by: "mset (sort_by cmp xs) = mset xs"
  by (induction xs) (simp_all add: sort_by_def mset_insert_by)

lemma sorted_insert_by:
  assumes "consistent_comparator cmp" and "sorted_wrt (\<lambda>a b. cmp a b \<le> 0) xs"
  shows "sorted_wrt (\<lambda>a b. cmp a b \<le> 0) (insert_by cmp x xs)"
  using assms(2)
proof (induction xs)
  case Nil
  show ?case by simp
next
  case (Cons y ys)
  from assms(1) have total: "cmp a b \<le> 0 \<or> cmp b a \<le> 0" for a b
    by (simp add: consistent_comparator_def)
  from assms(1) have trans: "cmp a b \<le> 0 \<Longrightarrow> cmp b c \<le> 0 \<Longrightarrow> cmp a c \<le> 0" for a b c
    unfolding consistent_comparator_def by blast
  show ?case
  proof (cases "cmp x y \<le> 0")
    case True
    with Cons.prems trans have "\<forall>z \<in> set (y # ys). cmp x z \<le> 0" by auto
    with True Cons.prems show ?thesis by simp
  next
    case False
    with total have "cmp y x \<le> 0" by blast
    with False Cons show ?thesis by (auto simp: set_insert_by)
  qed
qed

lemma sorted_sort_by:
  "consistent_comparator cmp \<Longrightarrow> sorted_wrt (\<lambda>a b. cmp a b \<le> 0) (sort_by cmp xs)"
  by (induction xs) (simp_all add: sort_by_def sorted_insert_by)

lemma compare_models_consistent:
  assumes "consistent_comparator localeCompare"
  shows "consistent_comparator (compare_models localeCompare)"
proof -
  from assms have total: "localeCompare a b \<le> 0 \<or> localeCompare b a \<le> 0" for a b
    by (simp add: consistent_comparator_def)
  from assms have trans:
    "localeCompare a b \<le> 0 \<Longrightarrow> localeCompare b c \<le> 0 \<Longrightarrow> localeCompare a c \<le> 0" for a b c
    unfolding consistent_comparator_def by blast
  have t: "compare_models localeCompare a b \<le> 0 \<or> compare_models localeCompare b a \<le> 0"
    for a b
    using total [of "model_name a" "model_name b"]
    by (auto simp: compare_models_def Let_def)
  have tr: "compare_models localeCompare a c \<le> 0"
    if "compare_models localeCompare a b \<le> 0" and "compare_models localeCompare b c \<le> 0"
    for a b c
    using that trans [of "model_name a" "model_name b" "model_name c"]
    by (auto simp: compare_models_def Let_def split: if_splits)
  from t tr show ?thesis unfolding consistent_comparator_def by blast
qed

lemma compare_models_order:
  assumes "compare_models localeCompare a b \<le> 0"
  shows "(model_id b \<in> set FEATURED_MODELS \<longrightarrow> model_id a \<in> set FEATURED_MODELS) \<and>
     (model_id a \<in> set FEATURED_MODELS \<and> model_id b \<in> set FEATURED_MODELS \<longrightarrow>
        indexOf FEATURED_MODELS (model_id a) \<le> indexOf FEATURED_MODELS (model_id b)) \<and>
     (model_id a \<notin> set FEATURED_MODELS \<and> model_id b \<notin> set FEATURED_MODELS \<longrightarrow>
        localeCompare (model_name a) (model_name b) \<le> 0)"
  using assms by (auto simp: compare_models_def Let_def split: if_splits)

lemma indexOf_position:
  "x \<in> set xs \<Longrightarrow>
     0 \<le> indexOf xs x \<and> nat (indexOf xs x) < length xs \<and> xs ! nat (indexOf xs x) = x \<and>
     x \<notin> set (take (nat (indexOf xs x)) xs)"
proof (induction xs)
  case Nil
  then show ?case by simp
next
  case (Cons y ys)
  show ?case
  proof (cases "y = x")
    case True
    then show ?thesis by simp
  next
    case False
    with Cons.prems have "x \<in> set ys" by simp
    from Cons.IH [OF this] False show ?thesis
      by (simp add: Let_def nat_add_distrib)
  qed
qed

text \<open>
  C2. For a locale comparison that is a consistent comparator, the autocomplete result is
  the first 50 entries of the ranked list, each mapped to its identifier, its name and its
  identifier again as description, where the ranked list is a rearrangement of the kept
  models in which no non-featured model stands before a featured one, featured models stand
  in ascending position of the featured list, and non-featured models stand in the order of
  the locale comparison of their names.
\<close>

theorem getModelAutocomplete_ranking:
  assumes "consistent_comparator localeCompare"
  shows
    "(let kept = filtered toLowerCase query (fst (fetchModels w s));
          ranked = sort_by (compare_models localeCompare) kept
      in fst (getModelAutocomplete toLowerCase localeCompare query w s)
           = map (\<lambda>m. \<lparr>item_id = model_id m, item_name = model_name m,
                         description = model_id m\<rparr>) (take 50 ranked) \<and>
         length (fst (getModelAutocomplete toLowerCase localeCompare query w s))
           = min 50 (length kept) \<and>
         mset ranked = mset kept \<and>
         (\<forall>i j. i < j \<and> j < length ranked \<longrightarrow>
            (model_id (ranked ! j) \<in> set FEATURED_MODELS \<longrightarrow>
               model_id (ranked ! i) \<in> set FEATURED_MODELS) \<and>
            (model_id (ranked ! i) \<in> set FEATURED_MODELS \<and>
             model_id (ranked ! j) \<in> set FEATURED_MODELS \<longrightarrow>
               indexOf FEATURED_MODELS (model_id (ranked ! i))
                 \<le> indexOf FEATURED_MODELS (model_id (ranked ! j))) \<and>
            (model_id (ranked ! i) \<notin> set FEATURED_MODELS \<and>
             model_id (ranked ! j) \<notin> set FEATURED_MODELS \<longrightarrow>
               localeCompare (model_name (ranked ! i)) (model_name (ranked ! j)) \<le> 0)))"
proof -
  define kept where "kept = filtered toLowerCase query (fst (fetchModels w s))"
  define ranked where "ranked = sort_by (compare_models localeCompare) kept"
  have r: "fst (getModelAutocomplete toLowerCase localeCompare query w s)
      = map (\<lambda>m. \<lparr>item_id = model_id m, item_name = model_name m,
                    description = model_id m\<rparr>) (take 50 ranked)"
    by (simp add: getModelAutocomplete_def rank_models_def present_def kept_def ranked_def
        split: prod.splits)
  have m: "mset ranked = mset kept"
    by (simp add: ranked_def mset_sort_by)
  then have "length ranked = length kept"
    by (rule mset_eq_length)
  with r have l: "length (fst (getModelAutocomplete toLowerCase localeCompare query w s))
      = min 50 (length kept)"
    by (simp add: min.commute)
  have "sorted_wrt (\<lambda>a b. compare_models localeCompare a b \<le> 0) ranked"
    unfolding ranked_def using assms by (intro sorted_sort_by compare_models_consistent)
  then have o: "compare_models localeCompare (ranked ! i) (ranked ! j) \<le> 0"
    if "i < j" and "j < length ranked" for i j
    using that by (simp add: sorted_wrt_iff_nth_less)
  have p: "(model_id (ranked ! j) \<in> set FEATURED_MODELS \<longrightarrow>
               model_id (ranked ! i) \<in> set FEATURED_MODELS) \<and>
            (model_id (ranked ! i) \<in> set FEATURED_MODELS \<and>
             model_id (ranked ! j) \<in> set FEATURED_MODELS \<longrightarrow>
               indexOf FEATURED_MODELS (model_id (ranked ! i))
                 \<le> indexOf FEATURED_MODELS (model_id (ranked ! j))) \<and>
            (model_id (ranked ! i) \<notin> set FEATURED_MODELS \<and>
             model_id (ranked ! j) \<notin> set FEATURED_MODELS \<longrightarrow>
               localeCompare (model_name (ranked ! i)) (model_name (ranked ! j)) \<le> 0)"
    if "i < j \<and> j < length ranked" for i j
    using o [of i j] that by (intro compare_models_order) simp
  from r l m p show ?thesis
    unfolding Let_def kept_def [symmetric] ranked_def [symmetric] by blast
qed

theorem getModelAutocomplete_ranking_witness:
  "consistent_comparator unit_compare \<and>
   fst (getModelAutocomplete ascii_toLowerCase unit_compare [] ranking_world fresh_driver)
     = [\<lparr>item_id = ''google/gemini-3-flash-preview'', item_name = ''Gemini 3 Flash'',
         description = ''google/gemini-3-flash-preview''\<rparr>,
        \<lparr>item_id = ''openai/gpt-4.1'', item_name = ''GPT-4.1'',
         description = ''openai/gpt-4.1''\<rparr>,
        \<lparr>item_id = ''acme/foo'', item_name = ''foo'', description = ''acme/foo''\<rparr>,
        \<lparr>item_id = ''zeta/zeta-1'', item_name = ''zeta'', description = ''zeta/zeta-1''\<rparr>]"
proof -
  have c: "consistent_comparator unit_compare"
    by (auto simp: consistent_comparator_def unit_compare_def split: if_splits)
  have f: "fst (fetchModels ranking_world fresh_driver) = ranking_catalog"
    by (simp add: fetchModels_def ranking_world_def fresh_driver_def cache_valid_def ok_def
        Let_def ranking_catalog_def)
  have k: "sort_by (compare_models unit_compare) (filtered ascii_toLowerCase [] ranking_catalog)
      = [\<lparr>model_id = ''google/gemini-3-flash-preview'', model_name = ''Gemini 3 Flash''\<rparr>,
         \<lparr>model_id = ''openai/gpt-4.1'', model_name = ''GPT-4.1''\<rparr>,
         \<lparr>model_id = ''acme/foo'', model_name = ''foo''\<rparr>,
         \<lparr>model_id = ''zeta/zeta-1'', model_name = ''zeta''\<rparr>]"
    by code_simp
  from getModelAutocomplete_ranking [OF c, of ascii_toLowerCase "[]" ranking_world fresh_driver]
  have "fst (getModelAutocomplete ascii_toLowerCase unit_compare [] ranking_world fresh_driver)
      = map (\<lambda>m. \<lparr>item_id = model_id m, item_name = model_name m,
                    description = model_id m\<rparr>)
          (take 50 (sort_by (compare_models unit_compare)
             (filtered ascii_toLowerCase [] (fst (fetchModels ranking_world fresh_driver)))))"
    unfolding Let_def by (rule conjunct1)
  with c show ?thesis unfolding f k by simp
qed

end
